theory Spec2Isabelle
  imports Main
begin

section \<open>hfy2epub: the crawl and discovery engine of \<^verbatim>\<open>src/js/hfy2epub.js\<close>\<close>

text \<open>
  The development embeds the functions of \<^verbatim>\<open>src/js/hfy2epub.js\<close> that fetch, cache,
  canonicalise and collect posts. JavaScript strings are modelled as \<^typ>\<open>string\<close>; the
  value \<^verbatim>\<open>undefined\<close> returned by \<^verbatim>\<open>nameFromURL\<close> is \<^term>\<open>None\<close>.
\<close>

subsection \<open>Identity and URL canonicaliser (lines 138--169)\<close>

text \<open>
  The two regular expressions of \<^verbatim>\<open>nameFromURL\<close> have the shape
  \<^verbatim>\<open>/LITERAL([A-Za-z0-9]+)/i\<close>. Such an expression matches at the leftmost position where
  the literal occurs (letters compared without regard to case) and is followed by at
  least one ASCII letter or digit; the capture group is the longest run of such
  characters. Under the \<^verbatim>\<open>i\<close> flag without the \<^verbatim>\<open>u\<close> flag no character outside ASCII is
  equal to an ASCII one, so case folding is the ASCII one. The captured token holds
  ASCII letters and digits only, so \<^verbatim>\<open>toLowerCase\<close> on it is the ASCII one as well. A
  \<^typ>\<open>string\<close> holds 8-bit characters; a character beyond them would match neither a
  literal nor the class, like any character here that is no ASCII letter or digit.
\<close>

definition upperLetters :: string where
  "upperLetters = ''ABCDEFGHIJKLMNOPQRSTUVWXYZ''"

definition lowerLetters :: string where
  "lowerLetters = ''abcdefghijklmnopqrstuvwxyz''"

definition digits :: string where
  "digits = ''0123456789''"

definition isAlnum :: "char \<Rightarrow> bool" where
  \<comment> \<open>the character class \<^verbatim>\<open>[A-Za-z0-9]\<close>\<close>
  "isAlnum c = (c \<in> set (upperLetters @ lowerLetters @ digits))"

definition toLowerChar :: "char \<Rightarrow> char" where
  "toLowerChar c = (case map_of (zip upperLetters lowerLetters) c of Some d \<Rightarrow> d | None \<Rightarrow> c)"

definition toLowerCase :: "string \<Rightarrow> string" where
  "toLowerCase s = map toLowerChar s"

fun matchLiteral :: "string \<Rightarrow> string \<Rightarrow> string option" where
  \<comment> \<open>the literal part of the pattern at the start of the input; returns the rest\<close>
  "matchLiteral [] s = Some s"
| "matchLiteral (p # ps) [] = None"
| "matchLiteral (p # ps) (c # cs) =
     (if toLowerChar p = toLowerChar c then matchLiteral ps cs else None)"

definition matchAt :: "string \<Rightarrow> string \<Rightarrow> string option" where
  \<comment> \<open>the whole pattern at the start of the input; returns capture group 1\<close>
  "matchAt lit s =
     (case matchLiteral lit s of
        None \<Rightarrow> None
      | Some r \<Rightarrow> (let tok = takeWhile isAlnum r in if tok = [] then None else Some tok))"

fun regexMatch :: "string \<Rightarrow> string \<Rightarrow> string option" where
  \<comment> \<open>\<^verbatim>\<open>url.match(/LITERAL([A-Za-z0-9]+)/i)\<close>: the leftmost match, \<^term>\<open>None\<close> for \<^verbatim>\<open>null\<close>\<close>
  "regexMatch lit [] = matchAt lit []"
| "regexMatch lit (c # cs) =
     (case matchAt lit (c # cs) of Some tok \<Rightarrow> Some tok | None \<Rightarrow> regexMatch lit cs)"

definition nameFromURL :: "string \<Rightarrow> string option" where
  "nameFromURL url =
     (case regexMatch ''redd.it/'' url of
        Some tok \<Rightarrow> Some (toLowerCase tok)
      | None \<Rightarrow>
          (case regexMatch ''r/HFY/comments/'' url of
             Some tok \<Rightarrow> Some (toLowerCase tok)
           | None \<Rightarrow> None))"

definition toStringName :: "string option \<Rightarrow> string" where
  \<comment> \<open>the string conversion that \<^verbatim>\<open>+\<close> applies to its operand: \<^verbatim>\<open>undefined\<close> becomes its name\<close>
  "toStringName name = (case name of None \<Rightarrow> ''undefined'' | Some n \<Rightarrow> n)"

definition urlFromName :: "string option \<Rightarrow> string" where
  "urlFromName name = ''https://www.reddit.com/r/HFY/comments/'' @ toStringName name @ ''/''"

definition unshorten :: "string \<Rightarrow> string" where
  "unshorten url = urlFromName (nameFromURL url)"

text \<open>
  The two accepted link forms, in the words of the specification: a short link holding
  an identifier segment, and a long-form link embedding \<^verbatim>\<open>.../comments/<identifier>/\<close>
  followed by the title slug.
\<close>

definition shortLink :: "string \<Rightarrow> string" where
  "shortLink ident = ''https://redd.it/'' @ ident"

definition longLink :: "string \<Rightarrow> string \<Rightarrow> string" where
  "longLink ident slug = ''https://www.reddit.com/r/HFY/comments/'' @ ident @ ''/'' @ slug"


subsection \<open>JSON values and property access\<close>

text \<open>
  A parsed response is a JavaScript value. Reading a property of \<^verbatim>\<open>undefined\<close> or \<^verbatim>\<open>null\<close>
  throws a \<^verbatim>\<open>TypeError\<close>; reading a missing property of anything else yields
  \<^verbatim>\<open>undefined\<close>. \<^verbatim>\<open>JSON.parse\<close> keeps the last of several equal keys. Index \<^verbatim>\<open>0\<close> is the
  key \<^verbatim>\<open>''0''\<close>. The keys the source reads (\<^verbatim>\<open>0\<close>, \<^verbatim>\<open>data\<close>, \<^verbatim>\<open>children\<close>, \<^verbatim>\<open>kind\<close>,
  \<^verbatim>\<open>content_html\<close>, \<^verbatim>\<open>selftext_html\<close>, \<^verbatim>\<open>author\<close>, \<^verbatim>\<open>title\<close>, \<^verbatim>\<open>name\<close>, \<^verbatim>\<open>url\<close>) name no
  built-in property of an array, a string, a number or a boolean.
\<close>

datatype json =
    JUndefined
  | JNull
  | JBool bool
  | JNum int
  | JStr string
  | JArr "json list"
  | JObj "(string \<times> json) list"

datatype exn = TypeError | SyntaxError

fun getProp :: "json \<Rightarrow> string \<Rightarrow> exn + json" where
  "getProp JUndefined k = Inl TypeError"
| "getProp JNull k = Inl TypeError"
| "getProp (JObj kvs) k = Inr (case map_of (rev kvs) k of None \<Rightarrow> JUndefined | Some v \<Rightarrow> v)"
| "getProp (JArr xs) k =
     Inr (if k = ''0'' then (case xs of [] \<Rightarrow> JUndefined | x # _ \<Rightarrow> x) else JUndefined)"
| "getProp (JStr s) k =
     Inr (if k = ''0'' then (case s of [] \<Rightarrow> JUndefined | c # _ \<Rightarrow> JStr [c]) else JUndefined)"
| "getProp (JBool b) k = Inr JUndefined"
| "getProp (JNum n) k = Inr JUndefined"

definition bindE :: "exn + 'a \<Rightarrow> ('a \<Rightarrow> exn + 'b) \<Rightarrow> exn + 'b" where
  \<comment> \<open>sequencing of steps that may throw\<close>
  "bindE r f = (case r of Inl x \<Rightarrow> Inl x | Inr v \<Rightarrow> f v)"

definition thenGet :: "exn + json \<Rightarrow> string \<Rightarrow> exn + json" where
  "thenGet r k = bindE r (\<lambda>v. getProp v k)"

fun toPrimitiveThrows :: "json \<Rightarrow> bool" where
  \<comment> \<open>converting the value to a primitive throws a \<^verbatim>\<open>TypeError\<close>: an object with an own key
      \<^verbatim>\<open>toString\<close> (no parsed value is callable), also as an element of an array\<close>
  "toPrimitiveThrows (JObj kvs) = (''toString'' \<in> set (map fst kvs))"
| "toPrimitiveThrows (JArr xs) = (\<exists>x\<in>set xs. toPrimitiveThrows x)"
| "toPrimitiveThrows v = False"

fun looseEqWikipage :: "json \<Rightarrow> bool" where
  \<comment> \<open>\<^verbatim>\<open>v == "wikipage"\<close> for a value whose conversion does not throw: the string itself, or
      an array that converts to it\<close>
  "looseEqWikipage (JStr s) = (s = ''wikipage'')"
| "looseEqWikipage (JArr [x]) = looseEqWikipage x"
| "looseEqWikipage v = False"

subsection \<open>The environment: network, entity decoder, DOM parser, configured pattern\<close>

text \<open>
  The network, the \<^verbatim>\<open>he\<close> entity decoder, the browser's \<^verbatim>\<open>DOMParser\<close> and the pattern
  typed into the \<^verbatim>\<open>#nextPostRegex\<close> input are not part of the source file; they are
  parameters. A network answer may depend on the requests made so far. A document is
  reduced to what the source reads of it: the text of its headings and its \<^verbatim>\<open>a\<close>
  elements in document order, an element without \<^verbatim>\<open>href\<close> attribute having
  \<^term>\<open>None\<close> (\<^verbatim>\<open>getAttribute\<close> returns \<^verbatim>\<open>null\<close>). A pattern that does not compile
  (\<^verbatim>\<open>new RegExp\<close> throws) is \<^term>\<open>None\<close>.
\<close>

datatype reply =
    Status200 "json option"  \<comment> \<open>the parsed body; \<^term>\<open>None\<close> when \<^verbatim>\<open>JSON.parse\<close> throws\<close>
  | StatusOther string       \<comment> \<open>any other status, with its status text\<close>

record answer =
  timerLag :: nat   \<comment> \<open>how late the timer fires, in ms\<close>
  duration :: nat   \<comment> \<open>ms from opening the request to \<^verbatim>\<open>readyState === DONE\<close>\<close>
  reply :: reply

record link =
  link_href :: "string option"
  link_text :: string

record document =
  doc_h1 :: "string list"
  doc_h2 :: "string list"
  doc_h3 :: "string list"
  doc_links :: "link list"

record env =
  net :: "(string \<times> int) list \<Rightarrow> string \<Rightarrow> answer"
  he_decode :: "json \<Rightarrow> exn + string"
  parseFromString :: "string \<Rightarrow> document"
  nextPostRegex :: "(string \<Rightarrow> bool) option"

subsection \<open>Rate-limited fetch layer and response cache (lines 3--51)\<close>

text \<open>
  The module's variables, the clock read by \<^verbatim>\<open>Date.now()\<close>, and a log of the network
  requests opened so far (address and opening time). Callbacks run one after the
  other, so a fetch followed by its callback is a function from world to world: the
  timer fires no earlier than its delay, the request is opened, and when it is done the
  handler stores the time and calls one of the callbacks. The handler stores the time at
  every \<^verbatim>\<open>readystatechange\<close> event of the request; the last of them is the completion,
  so that is the value left in \<^verbatim>\<open>timeOfLastRealRequest\<close>. Times are integers, in ms.
\<close>

record world =
  requestRedditJsonCache :: "string \<rightharpoonup> json"
  timeOfLastRealRequest :: int
  timeInMsBetweenRequests :: int
  clock :: int
  requests :: "(string \<times> int) list"

datatype 'a outcome =
    Success 'a      \<comment> \<open>the success callback is called with the value\<close>
  | Failure string  \<comment> \<open>the error callback is called with the message\<close>
  | Uncaught exn    \<comment> \<open>an exception leaves the handler; no callback is called\<close>

definition quote :: string where
  "quote = [CHR 0x27]"

definition requestDelay :: "world \<Rightarrow> int" where
  \<comment> \<open>the second argument of \<^verbatim>\<open>setTimeout\<close>, evaluated when \<^verbatim>\<open>requestRedditJSON\<close> is called\<close>
  "requestDelay w = max 0 (timeOfLastRealRequest w + timeInMsBetweenRequests w - clock w)"

definition requestRedditJSON :: "env \<Rightarrow> world \<Rightarrow> string \<Rightarrow> json outcome \<times> world" where
  "requestRedditJSON e w url =
     (let a = net e (requests w) (url @ ''.json'');
          opened = clock w + requestDelay w + int (timerLag a);
          finished = opened + int (duration a);
          w' = w\<lparr>requests := requests w @ [(url @ ''.json'', opened)],
                 clock := finished,
                 timeOfLastRealRequest := finished\<rparr>
      in case reply a of
           Status200 (Some j) \<Rightarrow> (Success j, w')
         | Status200 None \<Rightarrow> (Uncaught SyntaxError, w')
         | StatusOther statusText \<Rightarrow>
             (Failure (''Failed to retrieve url '' @ quote @ url @ quote
                        @ '' ('' @ statusText @ '')''), w'))"

definition requestRedditJSONCached :: "env \<Rightarrow> world \<Rightarrow> string \<Rightarrow> json outcome \<times> world" where
  "requestRedditJSONCached e w url =
     (case requestRedditJsonCache w url of
        Some j \<Rightarrow> (Success j, w)
      | None \<Rightarrow>
          (case requestRedditJSON e w url of
             (Success j, w') \<Rightarrow>
               (Success j, w'\<lparr>requestRedditJsonCache := (requestRedditJsonCache w')(url \<mapsto> j)\<rparr>)
           | (Failure err, w') \<Rightarrow> (Failure err, w')
           | (Uncaught x, w') \<Rightarrow> (Uncaught x, w')))"

definition isCached :: "world \<Rightarrow> string \<Rightarrow> bool" where
  "isCached w url = (requestRedditJsonCache w url \<noteq> None)"


text \<open>
  \<^verbatim>\<open>requestRedditJSONCached\<close> above is a call together with the completion of its
  request: it describes calls that do not overlap. In the source the cache is tested
  when the call is made (line 38) and written when the request is done (line 42), and
  other calls may be made in between. The two halves are given on their own: the call,
  which on a miss sets the timer and opens the request (lines 38, 41, 12--13, 29--31),
  and the completion, where the handler stores the time and, on success, the entry is
  stored before the callback runs (lines 14--27, 42--43). A request that is open is
  described by the answer it will get and its opening time. When the handler runs, the
  clock has reached the completion time of the request.
\<close>

definition openRequest :: "env \<Rightarrow> world \<Rightarrow> string \<Rightarrow> (answer \<times> int) \<times> world" where
  "openRequest e w url =
     (let a = net e (requests w) (url @ ''.json'');
          opened = clock w + requestDelay w + int (timerLag a)
      in ((a, opened), w\<lparr>requests := requests w @ [(url @ ''.json'', opened)]\<rparr>))"

definition requestDone :: "world \<Rightarrow> string \<Rightarrow> answer \<times> int \<Rightarrow> json outcome \<times> world" where
  "requestDone w url p =
     (let finished = max (clock w) (snd p + int (duration (fst p)));
          w' = w\<lparr>clock := finished, timeOfLastRealRequest := finished\<rparr>
      in case reply (fst p) of
           Status200 (Some j) \<Rightarrow> (Success j, w')
         | Status200 None \<Rightarrow> (Uncaught SyntaxError, w')
         | StatusOther statusText \<Rightarrow>
             (Failure (''Failed to retrieve url '' @ quote @ url @ quote
                        @ '' ('' @ statusText @ '')''), w'))"

definition cachedCall :: "env \<Rightarrow> world \<Rightarrow> string \<Rightarrow> (json + answer \<times> int) \<times> world" where
  \<comment> \<open>\<^term>\<open>Inl\<close>: a hit, the success callback is called at once; \<^term>\<open>Inr\<close>: a request is open\<close>
  "cachedCall e w url =
     (case requestRedditJsonCache w url of
        Some j \<Rightarrow> (Inl j, w)
      | None \<Rightarrow> (case openRequest e w url of (p, w') \<Rightarrow> (Inr p, w')))"

definition cachedDone :: "world \<Rightarrow> string \<Rightarrow> answer \<times> int \<Rightarrow> json outcome \<times> world" where
  "cachedDone w url p =
     (case requestDone w url p of
        (Success j, w') \<Rightarrow>
          (Success j, w'\<lparr>requestRedditJsonCache := (requestRedditJsonCache w')(url \<mapsto> j)\<rparr>)
      | (Failure err, w') \<Rightarrow> (Failure err, w')
      | (Uncaught x, w') \<Rightarrow> (Uncaught x, w'))"


text \<open>
  Two calls of \<^verbatim>\<open>requestRedditJSON\<close> made one right after the other, before any timer
  has fired: both \<^verbatim>\<open>setTimeout\<close> delays are computed from the same timestamp and the
  same clock reading. The result is the opening time of the first request, its
  completion time and the opening time of the second request.
\<close>

definition backToBack :: "env \<Rightarrow> world \<Rightarrow> string \<Rightarrow> string \<Rightarrow> int \<times> int \<times> int" where
  "backToBack e w url1 url2 =
     (let delay1 = requestDelay w;
          delay2 = requestDelay w;
          a1 = net e (requests w) (url1 @ ''.json'');
          opened1 = clock w + delay1 + int (timerLag a1);
          a2 = net e (requests w @ [(url1 @ ''.json'', opened1)]) (url2 @ ''.json'');
          opened2 = clock w + delay2 + int (timerLag a2)
      in (opened1, opened1 + int (duration a1), opened2))"


subsection \<open>Post collector (lines 178--193)\<close>

record post =
  post_author :: json
  post_title :: json
  post_name :: json
  post_content :: string
  post_url :: json

definition postData :: "json \<Rightarrow> exn + json" where
  \<comment> \<open>\<^verbatim>\<open>json[0]['data']['children'][0]['data']\<close>\<close>
  "postData j =
     thenGet (thenGet (thenGet (thenGet (getProp j ''0'') ''data'') ''children'') ''0'') ''data''"

definition readPost :: "env \<Rightarrow> json \<Rightarrow> exn + post" where
  \<comment> \<open>the body of the success callback of \<^verbatim>\<open>collectPost\<close>, in the order of evaluation\<close>
  "readPost e j =
     bindE (postData j) (\<lambda>p.
     bindE (getProp p ''selftext_html'') (\<lambda>html.
     bindE (he_decode e html) (\<lambda>content.
     bindE (getProp p ''author'') (\<lambda>a.
     bindE (getProp p ''title'') (\<lambda>t.
     bindE (getProp p ''name'') (\<lambda>n.
     bindE (getProp p ''url'') (\<lambda>u.
       Inr \<lparr>post_author = a, post_title = t, post_name = n,
            post_content = content, post_url = u\<rparr>)))))))"

definition collectPost :: "env \<Rightarrow> world \<Rightarrow> string \<Rightarrow> post outcome \<times> world" where
  "collectPost e w url =
     (case requestRedditJSONCached e w (unshorten url) of
        (Success j, w') \<Rightarrow>
          (case readPost e j of
             Inl x \<Rightarrow> (Uncaught x, w')
           | Inr collectedPost \<Rightarrow> (Success collectedPost, w'))
      | (Failure err, w') \<Rightarrow> (Failure err, w')
      | (Uncaught x, w') \<Rightarrow> (Uncaught x, w'))"

subsection \<open>Observable events\<close>

text \<open>
  A run is observed through the callbacks it invokes, in order. An uncaught exception
  ends the run. A handler of the callback dictionary returns \<^term>\<open>False\<close> for the
  JavaScript value \<^verbatim>\<open>false\<close> (abort) and \<^term>\<open>True\<close> for any other value; a handler
  that is not registered is \<^term>\<open>None\<close>.
\<close>

record part =
  part_name :: "string option"
  part_url :: string
  part_title :: string

record series =
  series_title :: json
  series_author :: json
  series_parts :: "part list"

datatype errorArg =
    PartError string part  \<comment> \<open>\<^verbatim>\<open>{message: error, part: part}\<close>\<close>
  | PlainError string

datatype event =
    CompletionCallback series
  | ErrorCallback string
  | CollectedPost post
  | FoundUrl string
  | Done "post list"
  | Error errorArg
  | Throw exn

record callbacks =
  cb_collectedPost :: "(post \<Rightarrow> bool) option"
  cb_foundUrl :: "(string \<Rightarrow> bool) option"
  cb_done :: "(post list \<Rightarrow> bool) option"
  cb_error :: "(errorArg \<Rightarrow> bool) option"

definition notify :: "('a \<Rightarrow> bool) option \<Rightarrow> ('a \<Rightarrow> event) \<Rightarrow> 'a \<Rightarrow> event list" where
  \<comment> \<open>\<^verbatim>\<open>if (callbacks.h) callbacks.h(x)\<close>: the event, when the handler is registered\<close>
  "notify h ev x = (case h of None \<Rightarrow> [] | Some f \<Rightarrow> [ev x])"

definition aborts :: "('a \<Rightarrow> bool) option \<Rightarrow> 'a \<Rightarrow> bool" where
  \<comment> \<open>\<^verbatim>\<open>callbacks.h && callbacks.h(x) === false\<close>\<close>
  "aborts h x = (case h of None \<Rightarrow> False | Some f \<Rightarrow> \<not> f x)"

subsection \<open>Index-page discovery (lines 57--112)\<close>

definition guessTitle :: "document \<Rightarrow> string" where
  "guessTitle doc =
     (case doc_h1 doc of
        t # _ \<Rightarrow> t
      | [] \<Rightarrow> (case doc_h2 doc of
                 t # _ \<Rightarrow> t
               | [] \<Rightarrow> (case doc_h3 doc of t # _ \<Rightarrow> t | [] \<Rightarrow> [])))"

fun findParts :: "link list \<Rightarrow> part list \<Rightarrow> exn + part list" where
  \<comment> \<open>the loop over the links; \<^verbatim>\<open>nameFromURL(null)\<close> throws\<close>
  "findParts [] parts = Inr parts"
| "findParts (l # ls) parts =
     (case link_href l of
        None \<Rightarrow> Inl TypeError
      | Some h \<Rightarrow>
          (case nameFromURL h of
             Some n \<Rightarrow>
               findParts ls
                 (parts @ [\<lparr>part_name = Some n, part_url = h, part_title = link_text l\<rparr>])
           | None \<Rightarrow> findParts ls parts))"

definition collectSeriesInfoFromWikiPage :: "env \<Rightarrow> world \<Rightarrow> string \<Rightarrow> event list \<times> world" where
  "collectSeriesInfoFromWikiPage e w url =
     (case requestRedditJSONCached e w url of
        (Failure err, w1) \<Rightarrow> ([ErrorCallback err], w1)
      | (Uncaught x, w1) \<Rightarrow> ([Throw x], w1)
      | (Success j, w1) \<Rightarrow>
          (case getProp j ''kind'' of
             Inl x \<Rightarrow> ([Throw x], w1)
           | Inr kind \<Rightarrow>
               if toPrimitiveThrows kind then ([Throw TypeError], w1)
               else
               (let evs = (if \<not> looseEqWikipage kind
                           then [ErrorCallback (url @ '' is not a wiki page'')] else [])
                in case bindE (thenGet (getProp j ''data'') ''content_html'') (he_decode e) of
                     Inl x \<Rightarrow> (evs @ [Throw x], w1)
                   | Inr indexHtml \<Rightarrow>
                       (let doc = parseFromString e indexHtml;
                            title = guessTitle doc
                        in case findParts (doc_links doc) [] of
                             Inl x \<Rightarrow> (evs @ [Throw x], w1)
                           | Inr [] \<Rightarrow> (evs, w1)
                           | Inr (p0 # ps) \<Rightarrow>
                               (case collectPost e w1 (part_url p0) of
                                  (Success post, w2) \<Rightarrow>
                                    (evs @ [CompletionCallback
                                       \<lparr>series_title =
                                          (if title = [] then post_title post else JStr title),
                                        series_author = post_author post,
                                        series_parts = p0 # ps\<rparr>], w2)
                                | (Failure err, w2) \<Rightarrow> (evs @ [ErrorCallback err], w2)
                                | (Uncaught x, w2) \<Rightarrow> (evs @ [Throw x], w2))))))"

subsection \<open>Next-link detection (lines 119--134)\<close>

fun findNextLink :: "(string \<Rightarrow> bool) \<Rightarrow> link list \<Rightarrow> string option list \<Rightarrow> exn + string option" where
  \<comment> \<open>the loop of \<^verbatim>\<open>findNextURL\<close>; \<^term>\<open>Inr None\<close> is the result \<^verbatim>\<open>null\<close>\<close>
  "findNextLink rx [] previousNames = Inr None"
| "findNextLink rx (l # ls) previousNames =
     (if rx (link_text l) then
        (case link_href l of
           None \<Rightarrow> Inl TypeError
         | Some potentialNextLink \<Rightarrow>
             if nameFromURL potentialNextLink \<notin> set previousNames
             then Inr (Some potentialNextLink)
             else findNextLink rx ls previousNames)
      else findNextLink rx ls previousNames)"

definition findNextURL :: "env \<Rightarrow> string \<Rightarrow> string option list \<Rightarrow> exn + string option" where
  "findNextURL e content previousNames =
     (case nextPostRegex e of
        None \<Rightarrow> Inl SyntaxError
      | Some rx \<Rightarrow> findNextLink rx (doc_links (parseFromString e content)) previousNames)"

subsection \<open>Batch collector (lines 208--234)\<close>

fun collectPart ::
  "env \<Rightarrow> callbacks \<Rightarrow> world \<Rightarrow> post list \<Rightarrow> event list \<Rightarrow> part list \<Rightarrow> event list \<times> world" where
  \<comment> \<open>\<^verbatim>\<open>collectPart(i)\<close>, the last argument being the parts from index \<^verbatim>\<open>i\<close> on\<close>
  "collectPart e cbs w posts trace [] = (trace @ notify (cb_done cbs) Done posts, w)"
| "collectPart e cbs w posts trace (part # rest) =
     (case collectPost e w (part_url part) of
        (Success collected, w1) \<Rightarrow>
          (let post = collected\<lparr>post_title := JStr (part_title part)\<rparr>;
               trace1 = trace @ notify (cb_collectedPost cbs) CollectedPost post
           in if aborts (cb_collectedPost cbs) post then (trace1, w1)
              else collectPart e cbs w1 (posts @ [post]) trace1 rest)
      | (Failure err, w1) \<Rightarrow>
          (trace @ notify (cb_error cbs) Error (PartError err part), w1)
      | (Uncaught x, w1) \<Rightarrow> (trace @ [Throw x], w1))"

definition collectPartPosts :: "env \<Rightarrow> callbacks \<Rightarrow> world \<Rightarrow> part list \<Rightarrow> event list \<times> world" where
  "collectPartPosts e cbs w parts = collectPart e cbs w [] [] parts"

subsection \<open>Link-following discovery (lines 245--280)\<close>

text \<open>
  The crawl follows one link after the other and need not end; not returning is the
  value \<^term>\<open>None\<close>. \<^verbatim>\<open>if (nextUrl)\<close> is false for \<^verbatim>\<open>null\<close> and for the empty string.
\<close>

partial_function (option) collectPostRecurse ::
  "env \<Rightarrow> callbacks \<Rightarrow> world \<Rightarrow> post list \<Rightarrow> string option list \<Rightarrow> event list \<Rightarrow> string
     \<Rightarrow> (event list \<times> world) option" where
  "collectPostRecurse e cbs w collectedPosts previousNames trace url =
     (case collectPost e w url of
        (Success collectedPost, w1) \<Rightarrow>
          (let posts = collectedPosts @ [collectedPost];
               trace1 = trace @ notify (cb_collectedPost cbs) CollectedPost collectedPost
           in if aborts (cb_collectedPost cbs) collectedPost then Some (trace1, w1)
              else
                (let names = previousNames @ [nameFromURL url]
                 in case findNextURL e (post_content collectedPost) names of
                      Inl x \<Rightarrow> Some (trace1 @ [Throw x], w1)
                    | Inr None \<Rightarrow> Some (trace1 @ notify (cb_done cbs) Done posts, w1)
                    | Inr (Some nextUrl) \<Rightarrow>
                        if nextUrl = [] then Some (trace1 @ notify (cb_done cbs) Done posts, w1)
                        else
                          (let trace2 = trace1 @ notify (cb_foundUrl cbs) FoundUrl nextUrl
                           in if aborts (cb_foundUrl cbs) nextUrl then Some (trace2, w1)
                              else collectPostRecurse e cbs w1 posts names trace2 nextUrl)))
      | (Failure err, w1) \<Rightarrow> Some (trace @ notify (cb_error cbs) Error (PlainError err), w1)
      | (Uncaught x, w1) \<Rightarrow> Some (trace @ [Throw x], w1))"

declare collectPostRecurse.simps [code]

definition findSeriesParts :: "env \<Rightarrow> callbacks \<Rightarrow> world \<Rightarrow> string \<Rightarrow> (event list \<times> world) option" where
  "findSeriesParts e cbs w startUrl = collectPostRecurse e cbs w [] [] [] startUrl"

subsection \<open>Concrete inputs\<close>

text \<open>
  A small environment on which the functions are evaluated. Its decoder returns a
  string unchanged (the texts below hold no entities) and throws on any other value, as
  \<^verbatim>\<open>he.decode\<close> does when it calls \<^verbatim>\<open>replace\<close> on its argument. Its pattern is
  \<^verbatim>\<open>^next$\<close>, matched without regard to case.
\<close>

definition decodeString :: "json \<Rightarrow> exn + string" where
  "decodeString v = (case v of JStr s \<Rightarrow> Inr s | _ \<Rightarrow> Inl TypeError)"

definition postPayload :: "string \<Rightarrow> string \<Rightarrow> string \<Rightarrow> string \<Rightarrow> json" where
  \<comment> \<open>the post payload shape: an array whose first element holds \<^verbatim>\<open>data.children[0].data\<close>\<close>
  "postPayload ident author title html =
     JArr [JObj [(''kind'', JStr ''Listing''),
                 (''data'', JObj [(''children'',
                    JArr [JObj [(''kind'', JStr ''t3''),
                                (''data'', JObj [(''author'', JStr author),
                                                 (''title'', JStr title),
                                                 (''name'', JStr (''t3_'' @ ident)),
                                                 (''selftext_html'', JStr html),
                                                 (''url'', JStr (urlFromName (Some ident)))])]])])],
           JObj [(''kind'', JStr ''Listing''), (''data'', JObj [(''children'', JArr [])])]]"

definition emptyListing :: json where
  \<comment> \<open>a listing without entries: \<^verbatim>\<open>json[0].data.children[0]\<close> is \<^verbatim>\<open>undefined\<close>\<close>
  "emptyListing = JArr [JObj [(''kind'', JStr ''Listing''), (''data'', JObj [(''children'', JArr [])])]]"

definition wikiPayload :: "string \<Rightarrow> string \<Rightarrow> json" where
  "wikiPayload kind html = JObj [(''kind'', JStr kind), (''data'', JObj [(''content_html'', JStr html)])]"

definition demoReply :: "(string \<times> int) list \<Rightarrow> string \<Rightarrow> reply" where
  "demoReply log u =
     (if u = ''https://www.reddit.com/r/HFY/comments/abc123/.json''
        then Status200 (Some (postPayload ''abc123'' ''alice'' ''Part 1''
               ''<a href=https://redd.it/ABC123>Next</a>''))
      else if u = ''https://www.reddit.com/r/HFY/comments/def456/.json''
        then Status200 (Some (postPayload ''def456'' ''alice'' ''Part 3''
               ''<a href=https://example.com/more>Next</a>''))
      else if u = ''https://www.reddit.com/r/HFY/comments/bad000/.json''
        then Status200 (Some emptyListing)
      else if u = ''https://www.reddit.com/r/HFY/comments/once00/.json''
        then (if u \<in> set (map fst log) then StatusOther ''Too Many Requests''
              else Status200 (Some (postPayload ''once00'' ''bob'' ''Once'' ''<p>The end.</p>'')))
      else if u = ''https://www.reddit.com/r/HFY/comments/flaky0/.json''
        then (if u \<in> set (map fst log)
              then Status200 (Some (postPayload ''flaky0'' ''bob'' ''Flaky'' ''<p>The end.</p>''))
              else StatusOther ''Service Unavailable'')
      else if u = ''https://www.reddit.com/r/HFY/comments/edit00/.json''
        then (if u \<in> set (map fst log)
              then Status200 (Some (postPayload ''edit00'' ''bob'' ''Edited'' ''<p>Second version.</p>''))
              else Status200 (Some (postPayload ''edit00'' ''bob'' ''Edited'' ''<p>First version.</p>'')))
      else if u = ''https://www.reddit.com/r/HFY/wiki/series/empty.json''
        then Status200 (Some (wikiPayload ''wikipage''
               ''<h1>My Series</h1><a href=/r/HFY/wiki/index>Index</a>''))
      else if u = ''https://www.reddit.com/r/HFY/wiki/series/other.json''
        then Status200 (Some (wikiPayload ''Listing''
               ''<a href=https://redd.it/abc123>Part 1</a>''))
      else StatusOther ''Not Found'')"

definition demoParse :: "string \<Rightarrow> document" where
  "demoParse html =
     \<lparr>doc_h1 = (if html = ''<h1>My Series</h1><a href=/r/HFY/wiki/index>Index</a>''
                 then [''My Series''] else []),
      doc_h2 = [],
      doc_h3 = [],
      doc_links =
        (if html = ''<a href=https://redd.it/ABC123>Next</a>''
           then [\<lparr>link_href = Some ''https://redd.it/ABC123'', link_text = ''Next''\<rparr>]
         else if html = ''<a href=https://example.com/more>Next</a>''
           then [\<lparr>link_href = Some ''https://example.com/more'', link_text = ''Next''\<rparr>]
         else if html = ''<h1>My Series</h1><a href=/r/HFY/wiki/index>Index</a>''
           then [\<lparr>link_href = Some ''/r/HFY/wiki/index'', link_text = ''Index''\<rparr>]
         else if html = ''<a href=https://redd.it/abc123>Part 1</a>''
           then [\<lparr>link_href = Some ''https://redd.it/abc123'', link_text = ''Part 1''\<rparr>]
         else [])\<rparr>"

definition demoEnv :: env where
  "demoEnv =
     \<lparr>net = (\<lambda>log u. \<lparr>timerLag = 0, duration = 300, reply = demoReply log u\<rparr>),
      he_decode = decodeString,
      parseFromString = demoParse,
      nextPostRegex = Some (\<lambda>t. toLowerCase t = ''next'')\<rparr>"

definition world0 :: world where
  \<comment> \<open>the module's initial variables, the clock at 5000 ms\<close>
  "world0 =
     \<lparr>requestRedditJsonCache = Map.empty,
      timeOfLastRealRequest = 0,
      timeInMsBetweenRequests = 2000,
      clock = 5000,
      requests = []\<rparr>"

definition allHandlers :: callbacks where
  \<comment> \<open>every handler registered, none asking to abort\<close>
  "allHandlers =
     \<lparr>cb_collectedPost = Some (\<lambda>p. True),
      cb_foundUrl = Some (\<lambda>u. True),
      cb_done = Some (\<lambda>ps. True),
      cb_error = Some (\<lambda>x. True)\<rparr>"

definition demoPart :: "string \<Rightarrow> string \<Rightarrow> part" where
  "demoPart u t = \<lparr>part_name = nameFromURL u, part_url = u, part_title = t\<rparr>"

section \<open>Properties\<close>

lemmas canon_defs =
  nameFromURL_def matchAt_def toLowerCase_def toLowerChar_def isAlnum_def
  upperLetters_def lowerLetters_def digits_def unshorten_def urlFromName_def toStringName_def
  shortLink_def longLink_def



subsection \<open>Canonicaliser: characters, matching, canonical links\<close>

lemma toLowerChar_idem: "toLowerChar (toLowerChar c) = toLowerChar c"
  by (auto simp: toLowerChar_def upperLetters_def lowerLetters_def)




lemma toLowerCase_idem: "toLowerCase (toLowerCase s) = toLowerCase s"
  by (simp add: toLowerCase_def toLowerChar_idem)












text \<open>
  Claim C4, as stated: for a URL from which no identifier can be extracted,
  \<^verbatim>\<open>unshorten\<close> propagates \<^verbatim>\<open>undefined\<close> and returns no URL string. The code
  concatenates the value into the template, and string concatenation always yields a
  string: at \<^verbatim>\<open>https://example.com/\<close> the name is undefined and \<^verbatim>\<open>unshorten\<close> returns the
  URL string \<^verbatim>\<open>https://www.reddit.com/r/HFY/comments/undefined/\<close>.
\<close>

theorem unshorten_undefined_counterexample:
  "nameFromURL ''https://example.com/'' = None \<and>
   unshorten ''https://example.com/'' = ''https://www.reddit.com/r/HFY/comments/undefined/''"
  by code_simp

text \<open>
  Claim C4, amended: for every URL from which no identifier can be extracted,
  \<^verbatim>\<open>unshorten\<close> returns the canonical template filled with the text \<^verbatim>\<open>undefined\<close>.
\<close>

theorem unshorten_without_identifier:
  "nameFromURL url = None \<Longrightarrow>
     unshorten url = ''https://www.reddit.com/r/HFY/comments/undefined/''"
  by (simp add: unshorten_def urlFromName_def toStringName_def)

theorem unshorten_without_identifier_witness:
  "nameFromURL ''https://www.reddit.com/r/HFY/wiki/series'' = None \<and>
   unshorten ''https://www.reddit.com/r/HFY/wiki/series''
     = ''https://www.reddit.com/r/HFY/comments/undefined/''"
proof -
  have h: "nameFromURL ''https://www.reddit.com/r/HFY/wiki/series'' = None"
    by code_simp
  from unshorten_without_identifier[OF h] h show ?thesis by simp
qed


















subsection \<open>Fetch layer and cache\<close>

lemma requestRedditJSON_frame:
  "requestRedditJsonCache (snd (requestRedditJSON e w url)) = requestRedditJsonCache w \<and>
   timeInMsBetweenRequests (snd (requestRedditJSON e w url)) = timeInMsBetweenRequests w"
  by (simp add: requestRedditJSON_def Let_def split: reply.splits option.splits)

lemma requestRedditJSON_log:
  "requests (snd (requestRedditJSON e w url)) =
     requests w @ [(url @ ''.json'',
        clock w + requestDelay w + int (timerLag (net e (requests w) (url @ ''.json''))))]"
  by (simp add: requestRedditJSON_def Let_def split: reply.splits option.splits)

lemma requestRedditJSON_time:
  "timeOfLastRealRequest (snd (requestRedditJSON e w url)) =
     clock w + requestDelay w + int (timerLag (net e (requests w) (url @ ''.json'')))
       + int (duration (net e (requests w) (url @ ''.json'')))"
  by (simp add: requestRedditJSON_def Let_def split: reply.splits option.splits)

lemma cached_hit:
  "requestRedditJsonCache w url = Some j \<Longrightarrow> requestRedditJSONCached e w url = (Success j, w)"
  by (simp add: requestRedditJSONCached_def)

lemma cached_miss:
  assumes "requestRedditJsonCache w url = None" "requestRedditJSON e w url = (r, w')"
  shows "requestRedditJSONCached e w url =
           (case r of
              Success j \<Rightarrow> (Success j, w'\<lparr>requestRedditJsonCache := (requestRedditJsonCache w)(url \<mapsto> j)\<rparr>)
            | Failure err \<Rightarrow> (r, w')
            | Uncaught x \<Rightarrow> (r, w'))"
proof -
  from requestRedditJSON_frame[of e w url] assms(2)
  have "requestRedditJsonCache w' = requestRedditJsonCache w" by simp
  with assms show ?thesis
    by (simp add: requestRedditJSONCached_def split: outcome.splits)
qed

lemma cached_miss_log:
  assumes "requestRedditJsonCache w url = None"
  shows "requests (snd (requestRedditJSONCached e w url)) = requests (snd (requestRedditJSON e w url))"
proof -
  obtain r w' where rq: "requestRedditJSON e w url = (r, w')" by (cases "requestRedditJSON e w url")
  from cached_miss[OF assms rq] rq show ?thesis by (cases r) simp_all
qed







lemma requestRedditJSON_split:
  "requestRedditJSON e w url
     = requestDone (snd (openRequest e w url)) url (fst (openRequest e w url))"
  by (simp add: requestRedditJSON_def openRequest_def requestDone_def requestDelay_def Let_def max_def)

lemma requestRedditJSONCached_split:
  "requestRedditJSONCached e w url =
     (case cachedCall e w url of
        (Inl j, w') \<Rightarrow> (Success j, w')
      | (Inr p, w') \<Rightarrow> cachedDone w' url p)"
  by (simp add: requestRedditJSONCached_def cachedCall_def cachedDone_def requestRedditJSON_split
           split: option.splits prod.splits)




subsection \<open>Post collector and index-page discovery on concrete payloads\<close>

lemma collectPost_bad_shape_uncaught:
  "requestRedditJSONCached e w (unshorten url) = (Success j, w') \<Longrightarrow> postData j = Inl x
     \<Longrightarrow> collectPost e w url = (Uncaught x, w')"
  by (simp add: collectPost_def readPost_def bindE_def)

lemma wiki_page_no_parts_silent:
  "requestRedditJSONCached e w url = (Success j, w1) \<Longrightarrow> getProp j ''kind'' = Inr kind
     \<Longrightarrow> \<not> toPrimitiveThrows kind \<Longrightarrow> looseEqWikipage kind
     \<Longrightarrow> bindE (thenGet (getProp j ''data'') ''content_html'') (he_decode e) = Inr html
     \<Longrightarrow> findParts (doc_links (parseFromString e html)) [] = Inr []
     \<Longrightarrow> collectSeriesInfoFromWikiPage e w url = ([], w1)"
  by (simp add: collectSeriesInfoFromWikiPage_def)

lemma not_wiki_page_goes_on:
  "requestRedditJSONCached e w url = (Success j, w1) \<Longrightarrow> getProp j ''kind'' = Inr kind
     \<Longrightarrow> \<not> toPrimitiveThrows kind \<Longrightarrow> \<not> looseEqWikipage kind
     \<Longrightarrow> bindE (thenGet (getProp j ''data'') ''content_html'') (he_decode e) = Inr html
     \<Longrightarrow> findParts (doc_links (parseFromString e html)) [] = Inr (p0 # ps)
     \<Longrightarrow> collectPost e w1 (part_url p0) = (Success post, w2)
     \<Longrightarrow> \<exists>series. collectSeriesInfoFromWikiPage e w url
           = ([ErrorCallback (url @ '' is not a wiki page''), CompletionCallback series], w2)"
  by (simp add: collectSeriesInfoFromWikiPage_def Let_def)

text \<open>
  Claim C1 (a payload that does not have the post shape is signalled through the error
  callback, not by an uncaught exception) fails on the code. The payload below is
  fetched with status 200 and parsed; its listing has no entry, so
  \<^verbatim>\<open>json[0]['data']['children'][0]\<close> is \<^verbatim>\<open>undefined\<close> and reading \<^verbatim>\<open>['data']\<close> of it throws a
  \<^verbatim>\<open>TypeError\<close> inside the success handler. No callback is called; the batch
  collector, with its error handler registered, reports nothing but the exception.
\<close>

theorem collectPost_malformed_payload_uncaught:
  "fst (requestRedditJSONCached demoEnv world0 (unshorten ''https://redd.it/bad000''))
     = Success emptyListing \<and>
   fst (collectPost demoEnv world0 ''https://redd.it/bad000'') = Uncaught TypeError \<and>
   fst (collectPartPosts demoEnv allHandlers world0 [demoPart ''https://redd.it/bad000'' ''Bad''])
     = [Throw TypeError]"
  by code_simp

text \<open>
  Claim C2 (with zero parts the completion callback is called with a series without
  parts, and no author is fetched) fails on the code in its first half. The wiki page
  below has a heading and one link that is no post link. The only network request is
  the one for the page, and neither the completion callback nor the error callback is
  called: the branch for an empty list of parts is missing.
\<close>

theorem wiki_page_without_parts_calls_nothing:
  "fst (collectSeriesInfoFromWikiPage demoEnv world0
          ''https://www.reddit.com/r/HFY/wiki/series/empty'') = [] \<and>
   map fst (requests (snd (collectSeriesInfoFromWikiPage demoEnv world0
          ''https://www.reddit.com/r/HFY/wiki/series/empty'')))
     = [''https://www.reddit.com/r/HFY/wiki/series/empty.json'']"
  by code_simp

text \<open>
  Claim C3 (a response that is not a wiki page fails with an error and nothing further
  happens) fails on the code: after calling the error callback the function does not
  return. On the payload below, of kind \<^verbatim>\<open>Listing\<close> but with a \<^verbatim>\<open>data.content_html\<close>, it
  goes on to parse the markup, extracts the part, fetches the part's post and calls the
  completion callback.
\<close>

theorem not_a_wiki_page_still_completes:
  "fst (collectSeriesInfoFromWikiPage demoEnv world0
          ''https://www.reddit.com/r/HFY/wiki/series/other'')
     = [ErrorCallback ''https://www.reddit.com/r/HFY/wiki/series/other is not a wiki page'',
        CompletionCallback
          \<lparr>series_title = JStr ''Part 1'', series_author = JStr ''alice'',
           series_parts = [\<lparr>part_name = Some ''abc123'', part_url = ''https://redd.it/abc123'',
                            part_title = ''Part 1''\<rparr>]\<rparr>] \<and>
   map fst (requests (snd (collectSeriesInfoFromWikiPage demoEnv world0
          ''https://www.reddit.com/r/HFY/wiki/series/other'')))
     = [''https://www.reddit.com/r/HFY/wiki/series/other.json'',
        ''https://www.reddit.com/r/HFY/comments/abc123/.json'']"
  by code_simp


subsection \<open>Request spacing\<close>

lemma backToBack_first_request:
  "fst (backToBack e w url1 url2) = snd (last (requests (snd (requestRedditJSON e w url1)))) \<and>
   fst (snd (backToBack e w url1 url2)) = timeOfLastRealRequest (snd (requestRedditJSON e w url1))"
  by (simp add: backToBack_def Let_def requestRedditJSON_log requestRedditJSON_time)

text \<open>
  Claim C5, as stated: of two calls of the fetch layer issued back-to-back, the second
  never opens its network request less than the minimum interval after the completion
  of the first. The delay is computed when \<^verbatim>\<open>requestRedditJSON\<close> is called, from the
  timestamp stored at that moment. Two calls made one right after the other at time
  5000, with the last completion at 0 and an interval of 2000, both compute the delay
  0: both requests are opened at 5000, the first completes at 5300, and the second was
  opened before that, not 2000 ms after it.
\<close>

theorem backToBack_counterexample:
  "backToBack demoEnv world0 ''https://www.reddit.com/r/HFY/comments/abc123/''
      ''https://www.reddit.com/r/HFY/comments/def456/'' = (5000, 5300, 5000) \<and>
   (case backToBack demoEnv world0 ''https://www.reddit.com/r/HFY/comments/abc123/''
           ''https://www.reddit.com/r/HFY/comments/def456/'' of
      (opened1, finished1, opened2) \<Rightarrow> opened2 < finished1 + timeInMsBetweenRequests world0)"
  by code_simp

text \<open>
  Claim C5, amended: every call waits out the delay
  \<^verbatim>\<open>max(0, timeOfLastRealRequest + timeInMsBetweenRequests - now)\<close>, computed when the call
  is made from the shared timestamp of the last completion. So when a second call is
  made once the first request has completed (at any clock reading \<^verbatim>\<open>now\<close>), the
  timestamp is the completion time of the first request, and the second request is
  opened no earlier than the minimum interval after it.
\<close>

theorem sequential_requests_spaced:
  "requestRedditJSON e w url1 = (r1, w1) \<and>
   requestRedditJSON e (w1\<lparr>clock := now\<rparr>) url2 = (r2, w2) \<longrightarrow>
     (\<exists>opened1 opened2.
        requests w1 = requests w @ [(url1 @ ''.json'', opened1)] \<and>
        timeOfLastRealRequest w1
          = opened1 + int (duration (net e (requests w) (url1 @ ''.json''))) \<and>
        requests w2 = requests w1 @ [(url2 @ ''.json'', opened2)] \<and>
        now + max 0 (timeOfLastRealRequest w1 + timeInMsBetweenRequests w - now) \<le> opened2 \<and>
        timeOfLastRealRequest w1 + timeInMsBetweenRequests w \<le> opened2)"
proof
  assume h: "requestRedditJSON e w url1 = (r1, w1) \<and>
   requestRedditJSON e (w1\<lparr>clock := now\<rparr>) url2 = (r2, w2)"
  then have w1: "w1 = snd (requestRedditJSON e w url1)"
    and w2: "w2 = snd (requestRedditJSON e (w1\<lparr>clock := now\<rparr>) url2)"
    by simp_all
  have i: "timeInMsBetweenRequests w1 = timeInMsBetweenRequests w"
    using requestRedditJSON_frame[of e w url1] w1 by simp
  let ?o1 = "clock w + requestDelay w + int (timerLag (net e (requests w) (url1 @ ''.json'')))"
  let ?o2 = "now + requestDelay (w1\<lparr>clock := now\<rparr>)
              + int (timerLag (net e (requests w1) (url2 @ ''.json'')))"
  have a: "requests w1 = requests w @ [(url1 @ ''.json'', ?o1)]"
    unfolding w1 by (rule requestRedditJSON_log)
  have b: "timeOfLastRealRequest w1 = ?o1 + int (duration (net e (requests w) (url1 @ ''.json'')))"
    unfolding w1 by (rule requestRedditJSON_time)
  have c: "requests w2 = requests w1 @ [(url2 @ ''.json'', ?o2)]"
    unfolding w2 using requestRedditJSON_log[of e "w1\<lparr>clock := now\<rparr>" url2] by simp
  have d: "requestDelay (w1\<lparr>clock := now\<rparr>)
             = max 0 (timeOfLastRealRequest w1 + timeInMsBetweenRequests w - now)"
    by (simp add: requestDelay_def i)
  have e1: "now + max 0 (timeOfLastRealRequest w1 + timeInMsBetweenRequests w - now) \<le> ?o2"
    by (simp add: d)
  have e2: "timeOfLastRealRequest w1 + timeInMsBetweenRequests w \<le> ?o2"
    by (simp add: d)
  from a b c e1 e2 show "\<exists>opened1 opened2.
        requests w1 = requests w @ [(url1 @ ''.json'', opened1)] \<and>
        timeOfLastRealRequest w1
          = opened1 + int (duration (net e (requests w) (url1 @ ''.json''))) \<and>
        requests w2 = requests w1 @ [(url2 @ ''.json'', opened2)] \<and>
        now + max 0 (timeOfLastRealRequest w1 + timeInMsBetweenRequests w - now) \<le> opened2 \<and>
        timeOfLastRealRequest w1 + timeInMsBetweenRequests w \<le> opened2"
    by blast
qed

theorem sequential_requests_spaced_witness:
  "\<exists>opened1 opened2.
     requests (snd (requestRedditJSON demoEnv world0 ''https://www.reddit.com/r/HFY/comments/abc123/''))
       = requests world0 @ [(''https://www.reddit.com/r/HFY/comments/abc123/'' @ ''.json'', opened1)] \<and>
     timeOfLastRealRequest
        (snd (requestRedditJSON demoEnv world0 ''https://www.reddit.com/r/HFY/comments/abc123/''))
       = opened1 + int (duration (net demoEnv (requests world0)
                          (''https://www.reddit.com/r/HFY/comments/abc123/'' @ ''.json''))) \<and>
     requests (snd (requestRedditJSON demoEnv
        ((snd (requestRedditJSON demoEnv world0 ''https://www.reddit.com/r/HFY/comments/abc123/''))
           \<lparr>clock := 5400\<rparr>)
        ''https://www.reddit.com/r/HFY/comments/def456/''))
       = requests (snd (requestRedditJSON demoEnv world0 ''https://www.reddit.com/r/HFY/comments/abc123/''))
           @ [(''https://www.reddit.com/r/HFY/comments/def456/'' @ ''.json'', opened2)] \<and>
     5400 + max 0 (timeOfLastRealRequest
        (snd (requestRedditJSON demoEnv world0 ''https://www.reddit.com/r/HFY/comments/abc123/''))
         + timeInMsBetweenRequests world0 - 5400) \<le> opened2 \<and>
     timeOfLastRealRequest
        (snd (requestRedditJSON demoEnv world0 ''https://www.reddit.com/r/HFY/comments/abc123/''))
       + timeInMsBetweenRequests world0 \<le> opened2"
proof -
  let ?u1 = "''https://www.reddit.com/r/HFY/comments/abc123/''"
  let ?u2 = "''https://www.reddit.com/r/HFY/comments/def456/''"
  let ?w1 = "snd (requestRedditJSON demoEnv world0 ?u1)"
  let ?c2 = "requestRedditJSON demoEnv (?w1\<lparr>clock := 5400\<rparr>) ?u2"
  have h: "requestRedditJSON demoEnv world0 ?u1 = (fst (requestRedditJSON demoEnv world0 ?u1), ?w1) \<and>
           ?c2 = (fst ?c2, snd ?c2)"
    by simp
  from sequential_requests_spaced
         [of demoEnv world0 ?u1 "fst (requestRedditJSON demoEnv world0 ?u1)" ?w1 5400 ?u2
             "fst ?c2" "snd ?c2", rule_format, OF h]
  show ?thesis .
qed

subsection \<open>Next-link detection\<close>

lemma findNextLink_all_visited:
  "\<forall>l\<in>set ls. rx (link_text l) \<longrightarrow> (\<exists>h. link_href l = Some h \<and> nameFromURL h \<in> set prev)
     \<Longrightarrow> findNextLink rx ls prev = Inr None"
  by (induction ls) auto

lemma findNextLink_first:
  assumes "\<forall>l'\<in>set pre. rx (link_text l') \<longrightarrow>
              (\<exists>h'. link_href l' = Some h' \<and> nameFromURL h' \<in> set prev)"
    and "rx (link_text l)" "link_href l = Some h" "nameFromURL h \<notin> set prev"
  shows "findNextLink rx (pre @ l # rest) prev = Inr (Some h)"
  using assms by (induction pre) auto

text \<open>
  Claim C10: in \<^verbatim>\<open>findNextURL\<close>, with a list of visited names that does not hold
  \<^verbatim>\<open>undefined\<close>, a link whose text matches the pattern and whose \<^verbatim>\<open>href\<close> yields no
  identifier is returned as the next URL, when no link before it qualifies (each
  earlier link with a matching text points to a visited identifier): links to
  addresses that are no posts are not filtered out.
\<close>

theorem findNextURL_returns_link_without_identifier:
  assumes "nextPostRegex e = Some rx"
    and "doc_links (parseFromString e content) = pre @ l # rest"
    and "\<forall>l'\<in>set pre. rx (link_text l') \<longrightarrow>
              (\<exists>h'. link_href l' = Some h' \<and> nameFromURL h' \<in> set previousNames)"
    and "rx (link_text l)" "link_href l = Some h" "nameFromURL h = None"
    and "None \<notin> set previousNames"
  shows "findNextURL e content previousNames = Inr (Some h)"
proof -
  from assms(6,7) have "nameFromURL h \<notin> set previousNames" by simp
  from findNextLink_first[OF assms(3,4,5) this] assms(1,2)
  show ?thesis by (simp add: findNextURL_def)
qed

theorem findNextURL_returns_link_without_identifier_witness:
  "nameFromURL ''https://example.com/more'' = None \<and>
   findNextURL demoEnv ''<a href=https://example.com/more>Next</a>'' [Some ''def456'']
     = Inr (Some ''https://example.com/more'')"
proof -
  let ?l = "\<lparr>link_href = Some ''https://example.com/more'', link_text = ''Next''\<rparr>"
  have h1: "nextPostRegex demoEnv = Some (\<lambda>t. toLowerCase t = ''next'')"
    by (simp add: demoEnv_def)
  have h2: "doc_links (parseFromString demoEnv ''<a href=https://example.com/more>Next</a>'')
              = [] @ ?l # []"
    by (simp add: demoEnv_def demoParse_def)
  have h3: "\<forall>l'\<in>set []. (\<lambda>t. toLowerCase t = ''next'') (link_text l') \<longrightarrow>
              (\<exists>h'. link_href l' = Some h' \<and> nameFromURL h' \<in> set [Some ''def456''])"
    by simp
  have h4: "(\<lambda>t. toLowerCase t = ''next'') (link_text ?l)"
    by code_simp
  have h5: "link_href ?l = Some ''https://example.com/more''"
    by simp
  have h6: "nameFromURL ''https://example.com/more'' = None"
    by code_simp
  have h7: "None \<notin> set [Some ''def456'']"
    by simp
  from findNextURL_returns_link_without_identifier[OF h1 h2 h3 h4 h5 h6 h7] h6
  show ?thesis by simp
qed

subsection \<open>Link-following discovery\<close>

text \<open>
  Claim C7: in a crawl state where the current post has been collected (its handler
  not asking to abort) and every link whose text matches the pattern points to an
  identifier in the list of visited names (which by then holds the current post's
  name), \<^verbatim>\<open>findNextURL\<close> returns \<^verbatim>\<open>null\<close>, and the crawl returns: its last event is the
  \<^verbatim>\<open>done\<close> notification with the posts collected, and no further post is fetched.
\<close>

theorem visited_links_end_the_crawl:
  assumes "nextPostRegex e = Some rx"
    and "collectPost e w url = (Success p, w1)"
    and "\<not> aborts (cb_collectedPost cbs) p"
    and "\<forall>l\<in>set (doc_links (parseFromString e (post_content p))).
            rx (link_text l) \<longrightarrow>
              (\<exists>h. link_href l = Some h \<and> nameFromURL h \<in> set (previousNames @ [nameFromURL url]))"
    and "cb_done cbs = Some handler"
  shows "findNextURL e (post_content p) (previousNames @ [nameFromURL url]) = Inr None \<and>
         collectPostRecurse e cbs w collectedPosts previousNames trace url
           = Some (trace @ notify (cb_collectedPost cbs) CollectedPost p
                     @ [Done (collectedPosts @ [p])], w1)"
proof -
  have n: "findNextURL e (post_content p) (previousNames @ [nameFromURL url]) = Inr None"
    using findNextLink_all_visited[OF assms(4)] assms(1) by (simp add: findNextURL_def)
  have "collectPostRecurse e cbs w collectedPosts previousNames trace url
           = Some (trace @ notify (cb_collectedPost cbs) CollectedPost p
                     @ [Done (collectedPosts @ [p])], w1)"
    by (subst collectPostRecurse.simps) (simp add: assms(2,3,5) n notify_def)
  with n show ?thesis by simp
qed

theorem visited_links_end_the_crawl_witness:
  "nameFromURL ''https://redd.it/ABC123'' = nameFromURL ''https://redd.it/abc123'' \<and>
   findNextURL demoEnv ''<a href=https://redd.it/ABC123>Next</a>''
      ([] @ [nameFromURL ''https://redd.it/abc123'']) = Inr None \<and>
   findSeriesParts demoEnv allHandlers world0 ''https://redd.it/abc123''
     = Some ([CollectedPost
                \<lparr>post_author = JStr ''alice'', post_title = JStr ''Part 1'',
                 post_name = JStr ''t3_abc123'',
                 post_content = ''<a href=https://redd.it/ABC123>Next</a>'',
                 post_url = JStr ''https://www.reddit.com/r/HFY/comments/abc123/''\<rparr>,
              Done
                [\<lparr>post_author = JStr ''alice'', post_title = JStr ''Part 1'',
                  post_name = JStr ''t3_abc123'',
                  post_content = ''<a href=https://redd.it/ABC123>Next</a>'',
                  post_url = JStr ''https://www.reddit.com/r/HFY/comments/abc123/''\<rparr>]],
             snd (collectPost demoEnv world0 ''https://redd.it/abc123''))"
proof -
  let ?p = "\<lparr>post_author = JStr ''alice'', post_title = JStr ''Part 1'',
                 post_name = JStr ''t3_abc123'',
                 post_content = ''<a href=https://redd.it/ABC123>Next</a>'',
                 post_url = JStr ''https://www.reddit.com/r/HFY/comments/abc123/''\<rparr>"
  have n1: "nameFromURL ''https://redd.it/ABC123'' = Some ''abc123''" by code_simp
  have n2: "nameFromURL ''https://redd.it/abc123'' = Some ''abc123''" by code_simp
  have h1: "nextPostRegex demoEnv = Some (\<lambda>t. toLowerCase t = ''next'')"
    by (simp add: demoEnv_def)
  have f: "fst (collectPost demoEnv world0 ''https://redd.it/abc123'') = Success ?p"
    by code_simp
  then have h2: "collectPost demoEnv world0 ''https://redd.it/abc123''
                   = (Success ?p, snd (collectPost demoEnv world0 ''https://redd.it/abc123''))"
    by (simp add: prod_eq_iff)
  have h3: "\<not> aborts (cb_collectedPost allHandlers) ?p"
    by (simp add: aborts_def allHandlers_def)
  have h4: "\<forall>l\<in>set (doc_links (parseFromString demoEnv (post_content ?p))).
            (\<lambda>t. toLowerCase t = ''next'') (link_text l) \<longrightarrow>
              (\<exists>h. link_href l = Some h \<and>
                 nameFromURL h \<in> set ([] @ [nameFromURL ''https://redd.it/abc123'']))"
    by (simp add: demoEnv_def demoParse_def n1 n2)
  have h5: "cb_done allHandlers = Some (\<lambda>ps. True)"
    by (simp add: allHandlers_def)
  from visited_links_end_the_crawl[OF h1 h2 h3 h4 h5, of "[]" "[]"] n1 n2
  show ?thesis by (simp add: findSeriesParts_def notify_def allHandlers_def)
qed

subsection \<open>Batch collector\<close>

lemma collectPost_log:
  "requests (snd (collectPost e w url)) = requests w \<or>
   (\<exists>t. requests (snd (collectPost e w url)) = requests w @ [(unshorten url @ ''.json'', t)])"
proof (cases "requestRedditJsonCache w (unshorten url)")
  case None
  have "snd (collectPost e w url) = snd (requestRedditJSONCached e w (unshorten url))"
    by (cases "requestRedditJSONCached e w (unshorten url)")
       (simp add: collectPost_def split: outcome.splits sum.splits)
  with cached_miss_log[OF None, of e] show ?thesis by (simp add: requestRedditJSON_log)
next
  case (Some j)
  then show ?thesis by (simp add: collectPost_def cached_hit split: sum.splits)
qed

lemma collectPost_Failure_log:
  assumes "collectPost e w url = (Failure msg, w1)"
  shows "\<exists>t. requests w1 = requests w @ [(unshorten url @ ''.json'', t)]"
proof (cases "requestRedditJsonCache w (unshorten url)")
  case None
  have "snd (collectPost e w url) = snd (requestRedditJSONCached e w (unshorten url))"
    by (cases "requestRedditJSONCached e w (unshorten url)")
       (simp add: collectPost_def split: outcome.splits sum.splits)
  with cached_miss_log[OF None, of e] assms show ?thesis by (simp add: requestRedditJSON_log)
next
  case (Some j)
  with assms show ?thesis by (simp add: collectPost_def cached_hit split: sum.splits)
qed

text \<open>
  Claim C6: for three parts, with the handlers \<^verbatim>\<open>collectedPost\<close> and \<^verbatim>\<open>error\<close>
  registered, when collecting part 1 succeeds (its handler not asking to abort) and
  the fetch of part 2 fails, \<^verbatim>\<open>collectPartPosts\<close> fires exactly one \<^verbatim>\<open>collectedPost\<close>
  notification, for part 1 under the title of the listing, and exactly one \<^verbatim>\<open>error\<close>
  notification, carrying part 2 and the message. The run ends in the world left by the
  failed fetch of part 2, whose request is the last one made: part 3 is never fetched.
\<close>

theorem collectPartPosts_second_fetch_fails:
  assumes "cb_collectedPost cbs = Some onCollected" "cb_error cbs = Some onError"
    and "collectPost e w (part_url p1) = (Success post1, w1)"
    and "onCollected (post1\<lparr>post_title := JStr (part_title p1)\<rparr>)"
    and "collectPost e w1 (part_url p2) = (Failure msg, w2)"
  shows "collectPartPosts e cbs w [p1, p2, p3]
           = ([CollectedPost (post1\<lparr>post_title := JStr (part_title p1)\<rparr>),
               Error (PartError msg p2)], w2) \<and>
         (\<exists>t. requests w2 = requests w1 @ [(unshorten (part_url p2) @ ''.json'', t)]) \<and>
         length (requests w2) \<le> length (requests w) + 2"
proof -
  have run: "collectPartPosts e cbs w [p1, p2, p3]
           = ([CollectedPost (post1\<lparr>post_title := JStr (part_title p1)\<rparr>),
               Error (PartError msg p2)], w2)"
    by (simp add: collectPartPosts_def assms notify_def aborts_def Let_def)
  from collectPost_Failure_log[OF assms(5)]
  obtain t where t: "requests w2 = requests w1 @ [(unshorten (part_url p2) @ ''.json'', t)]"
    by blast
  from collectPost_log[of e w "part_url p1"] assms(3)
  have "length (requests w1) \<le> length (requests w) + 1" by auto
  with t have "length (requests w2) \<le> length (requests w) + 2" by simp
  with run t show ?thesis by blast
qed

theorem collectPartPosts_second_fetch_fails_witness:
  "collectPartPosts demoEnv allHandlers world0
      [demoPart ''https://redd.it/abc123'' ''One'', demoPart ''https://redd.it/gone00'' ''Two'',
       demoPart ''https://redd.it/def456'' ''Three'']
     = ([CollectedPost
           \<lparr>post_author = JStr ''alice'', post_title = JStr ''One'',
            post_name = JStr ''t3_abc123'',
            post_content = ''<a href=https://redd.it/ABC123>Next</a>'',
            post_url = JStr ''https://www.reddit.com/r/HFY/comments/abc123/''\<rparr>,
         Error (PartError
           (''Failed to retrieve url '' @ quote
              @ ''https://www.reddit.com/r/HFY/comments/gone00/'' @ quote @ '' (Not Found)'')
           (demoPart ''https://redd.it/gone00'' ''Two''))],
        snd (collectPost demoEnv (snd (collectPost demoEnv world0 ''https://redd.it/abc123''))
               ''https://redd.it/gone00'')) \<and>
   map fst (requests
      (snd (collectPost demoEnv (snd (collectPost demoEnv world0 ''https://redd.it/abc123''))
               ''https://redd.it/gone00'')))
     = [''https://www.reddit.com/r/HFY/comments/abc123/.json'',
        ''https://www.reddit.com/r/HFY/comments/gone00/.json'']"
proof -
  let ?p = "\<lparr>post_author = JStr ''alice'', post_title = JStr ''Part 1'',
                 post_name = JStr ''t3_abc123'',
                 post_content = ''<a href=https://redd.it/ABC123>Next</a>'',
                 post_url = JStr ''https://www.reddit.com/r/HFY/comments/abc123/''\<rparr>"
  let ?w1 = "snd (collectPost demoEnv world0 ''https://redd.it/abc123'')"
  let ?msg = "''Failed to retrieve url '' @ quote
              @ ''https://www.reddit.com/r/HFY/comments/gone00/'' @ quote @ '' (Not Found)''"
  have h1: "cb_collectedPost allHandlers = Some (\<lambda>p. True)"
    and h2: "cb_error allHandlers = Some (\<lambda>x. True)"
    by (simp_all add: allHandlers_def)
  have f1: "fst (collectPost demoEnv world0 ''https://redd.it/abc123'') = Success ?p"
    by code_simp
  then have h3: "collectPost demoEnv world0 (part_url (demoPart ''https://redd.it/abc123'' ''One''))
                   = (Success ?p, ?w1)"
    by (simp add: prod_eq_iff demoPart_def)
  have h4: "(\<lambda>p. True) (?p\<lparr>post_title := JStr (part_title (demoPart ''https://redd.it/abc123'' ''One''))\<rparr>)"
    by simp
  have f2: "fst (collectPost demoEnv ?w1 ''https://redd.it/gone00'') = Failure ?msg"
    by code_simp
  then have h5: "collectPost demoEnv ?w1 (part_url (demoPart ''https://redd.it/gone00'' ''Two''))
                   = (Failure ?msg, snd (collectPost demoEnv ?w1 ''https://redd.it/gone00''))"
    by (simp add: prod_eq_iff demoPart_def)
  have r: "map fst (requests (snd (collectPost demoEnv ?w1 ''https://redd.it/gone00'')))
     = [''https://www.reddit.com/r/HFY/comments/abc123/.json'',
        ''https://www.reddit.com/r/HFY/comments/gone00/.json'']"
    by code_simp
  from collectPartPosts_second_fetch_fails
         [OF h1 h2 h3 h4 h5, of "demoPart ''https://redd.it/def456'' ''Three''"] r
  show ?thesis by (simp add: demoPart_def)
qed

end
